theory Spec2Isabelle
  imports Complex_Main "HOL-Library.AList"
begin

section \<open>Entities and game state\<close>

text \<open>
  Modelled from the spec: the headers that declare the entities and the game state
  (\<^verbatim>\<open>core/types.hpp\<close>, \<^verbatim>\<open>core/Ball.hpp\<close>, \<^verbatim>\<open>core/Entities.hpp\<close>,
  \<^verbatim>\<open>engine/GameState.hpp\<close>) are not part of the sources. The observation encoders of
  \<^verbatim>\<open>environment/envs/GridEnvironment.hpp\<close> and \<^verbatim>\<open>environment/envs/FullEnvironment.hpp\<close>
  read entities through a handful of members: \<^verbatim>\<open>e.x\<close> and \<^verbatim>\<open>e.y\<close> of every entity,
  \<^verbatim>\<open>cell.velocity.dx\<close>, \<^verbatim>\<open>cell.velocity.dy\<close> and \<^verbatim>\<open>cell.mass()\<close> of a cell,
  \<^verbatim>\<open>player.cells\<close>, and \<^verbatim>\<open>game_state.pellets\<close>, \<^verbatim>\<open>viruses\<close>, \<^verbatim>\<open>foods\<close>, \<^verbatim>\<open>players\<close>.
  The records below hold these members, and of a player the identifier and the name
  that the tests read. The numeric types \<^verbatim>\<open>agario::distance\<close> and \<^verbatim>\<open>agario::mass\<close> are
  the type parameters \<open>'d\<close> and \<open>'m\<close>; \<^verbatim>\<open>agario::pid\<close> is unsigned.
\<close>

type_synonym pid = nat

record 'd Velocity =
  dx :: 'd
  dy :: 'd

text \<open>A positioned entity: \<^verbatim>\<open>Pellet\<close>, \<^verbatim>\<open>Virus\<close> and \<^verbatim>\<open>Food\<close> are read as such.\<close>

record 'd Ball =
  ent_x :: 'd
  ent_y :: 'd

type_synonym 'd Pellet = "'d Ball"
type_synonym 'd Virus = "'d Ball"
type_synonym 'd Food = "'d Ball"

record ('d, 'm) Cell = "'d Ball" +
  velocity :: "'d Velocity"
  mass :: 'm

record ('d, 'm) Player =
  player_pid :: pid
  player_name :: string
  cells :: "('d, 'm) Cell list"

text \<open>
  \<^verbatim>\<open>game_state.players\<close> is iterated as a map of pairs whose second component points
  to a player; it is kept as the list of its entries in iteration order.
\<close>

record ('d, 'm) GameState =
  players :: "(pid \<times> ('d, 'm) Player) list"
  pellets :: "'d Pellet list"
  viruses :: "'d Virus list"
  foods :: "'d Food list"

section \<open>Errors\<close>

text \<open>
  \<open>NotFound\<close> and \<open>InvalidArgument\<close> are the spec's conditions for an unknown player
  identifier and for a construction parameter out of range. The other two stand for
  undefined behaviour of the C++ code: arithmetic that leaves the range of
  \<^verbatim>\<open>int\<close>, and a write past the end of an allocated array.
\<close>

datatype error = NotFound | InvalidArgument | IntOverflow | OutOfBounds

definition and_then :: "error + 'a \<Rightarrow> ('a \<Rightarrow> error + 'b) \<Rightarrow> error + 'b" where
  "and_then m f = (case m of Inl e \<Rightarrow> Inl e | Inr v \<Rightarrow> f v)"

section \<open>Observation buffers\<close>

text \<open>
  \<^verbatim>\<open>INT_MAX\<close> of a 32-bit \<^verbatim>\<open>int\<close>. Counts and array lengths are never negative, so
  an \<^verbatim>\<open>int\<close> is modelled as a natural number that must stay at or below \<open>INT_MAX\<close>.
\<close>

definition INT_MAX :: nat where
  "INT_MAX = 2147483647"

text \<open>\<^verbatim>\<open>int num = entities.size()\<close>: the size has to fit an \<^verbatim>\<open>int\<close>.\<close>

definition int_of_size :: "nat \<Rightarrow> error + nat" where
  "int_of_size n = (if n \<le> INT_MAX then Inr n else Inl IntOverflow)"

text \<open>\<^verbatim>\<open>a * b\<close> on \<^verbatim>\<open>int\<close>: signed overflow is undefined.\<close>

definition int_mul :: "nat \<Rightarrow> nat \<Rightarrow> error + nat" where
  "int_mul a b = (if a * b \<le> INT_MAX then Inr (a * b) else Inl IntOverflow)"

text \<open>
  A buffer is the content of one \<^verbatim>\<open>float\<close> array. \<^verbatim>\<open>new float[n]\<close> leaves its \<open>n\<close>
  elements indeterminate: \<open>None\<close>. Every array is allocated by the observation that
  owns it and is reachable only through its \<^verbatim>\<open>_data\<close> entry, so \<^verbatim>\<open>_data\<close> is kept as
  the list of the arrays' contents.
\<close>

type_synonym 'f buffer = "'f option list"

definition new_float :: "nat \<Rightarrow> 'f buffer" where
  "new_float n = replicate n None"

text \<open>\<^verbatim>\<open>buffer[i] = v\<close>; a write past the end of the array is undefined behaviour.\<close>

definition store :: "'f buffer \<Rightarrow> nat \<Rightarrow> 'f \<Rightarrow> error + 'f buffer" where
  "store buffer i v =
     (if i < length buffer then Inr (buffer[i := Some v]) else Inl OutOfBounds)"

record 'f Observation =
  data :: "'f buffer list"
  shapes :: "int list list"

text \<open>
  The generic \<^verbatim>\<open>_copy_entities\<close> (GridEnvironment.hpp lines 73 to 81,
  FullEnvironment.hpp lines 68 to 76, the same text). \<open>cd\<close> is the conversion
  \<^verbatim>\<open>static_cast<float>\<close> from \<^verbatim>\<open>agario::distance\<close>; the loop carries \<open>i\<close>.
\<close>

fun copy_entities_from ::
  "('d \<Rightarrow> 'f) \<Rightarrow> nat \<Rightarrow> ('d, 'z) Ball_scheme list \<Rightarrow> 'f buffer \<Rightarrow> error + 'f buffer" where
  "copy_entities_from cd i [] buffer = Inr buffer"
| "copy_entities_from cd i (e # rest) buffer =
     and_then (store buffer (i * 2 + 0) (cd (ent_x e))) (\<lambda>buffer.
     and_then (store buffer (i * 2 + 1) (cd (ent_y e))) (\<lambda>buffer.
     copy_entities_from cd (i + 1) rest buffer))"

definition copy_entities ::
  "('d \<Rightarrow> 'f) \<Rightarrow> ('d, 'z) Ball_scheme list \<Rightarrow> 'f buffer \<Rightarrow> error + 'f buffer" where
  "copy_entities cd entities buffer = copy_entities_from cd 0 entities buffer"

text \<open>
  The \<^verbatim>\<open>Cell\<close> overload of \<^verbatim>\<open>_copy_entities\<close> (GridEnvironment.hpp lines 84 to 94,
  FullEnvironment.hpp lines 79 to 89, the same text). \<open>cm\<close> is the conversion
  \<^verbatim>\<open>(float)\<close> from \<^verbatim>\<open>agario::mass\<close>.
\<close>

fun copy_cells_from ::
  "('d \<Rightarrow> 'f) \<Rightarrow> ('m \<Rightarrow> 'f) \<Rightarrow> nat \<Rightarrow> ('d, 'm) Cell list \<Rightarrow> 'f buffer \<Rightarrow> error + 'f buffer" where
  "copy_cells_from cd cm i [] buffer = Inr buffer"
| "copy_cells_from cd cm i (cell # rest) buffer =
     and_then (store buffer (i * 5 + 0) (cd (ent_x cell))) (\<lambda>buffer.
     and_then (store buffer (i * 5 + 1) (cd (ent_y cell))) (\<lambda>buffer.
     and_then (store buffer (i * 5 + 2) (cd (dx (velocity cell)))) (\<lambda>buffer.
     and_then (store buffer (i * 5 + 3) (cd (dy (velocity cell)))) (\<lambda>buffer.
     and_then (store buffer (i * 5 + 4) (cm (mass cell))) (\<lambda>buffer.
     copy_cells_from cd cm (i + 1) rest buffer)))))"

definition copy_cells ::
  "('d \<Rightarrow> 'f) \<Rightarrow> ('m \<Rightarrow> 'f) \<Rightarrow> ('d, 'm) Cell list \<Rightarrow> 'f buffer \<Rightarrow> error + 'f buffer" where
  "copy_cells cd cm cs buffer = copy_cells_from cd cm 0 cs buffer"

text \<open>
  \<^verbatim>\<open>GridObservation::_store_entities<T, NumAttr>\<close> (GridEnvironment.hpp lines 64 to
  71). \<open>copy\<close> is the \<^verbatim>\<open>_copy_entities\<close> overload that the call resolves to for \<open>T\<close>:
  \<open>copy_cells\<close> for \<^verbatim>\<open>Cell\<close>, \<open>copy_entities\<close> otherwise. Three values are
  \<^verbatim>\<open>int\<close>s: the count \<^verbatim>\<open>num\<close>, the array length \<^verbatim>\<open>NumAttr * num\<close> and the
  \<^verbatim>\<open>index\<close> of the new array. The indices that the copy loops compute stay below the
  array length.
\<close>

definition store_entities ::
  "nat \<Rightarrow> ('e list \<Rightarrow> 'f buffer \<Rightarrow> error + 'f buffer) \<Rightarrow> 'e list \<Rightarrow> 'f Observation
     \<Rightarrow> error + 'f Observation" where
  "store_entities NumAttr copy entities obs =
     and_then (int_of_size (length entities)) (\<lambda>num.
     and_then (int_mul NumAttr num) (\<lambda>len.
       let data1 = data obs @ [new_float len]
       in and_then (int_of_size (length data1 - 1)) (\<lambda>index.
          and_then (copy entities (data1 ! index)) (\<lambda>buffer.
            Inr \<lparr>data = data1[index := buffer],
                 shapes = shapes obs @ [[int num, int NumAttr]]\<rparr>))))"

text \<open>
  \<^verbatim>\<open>FullObservation::_store_entities<T, NumAttr>\<close> (FullEnvironment.hpp lines 59 to
  66) differs from the above in one place: line 62 allocates
  \<^verbatim>\<open>new float[NumAttr * entities]\<close>, where \<^verbatim>\<open>entities\<close> is the vector and not its
  size \<^verbatim>\<open>num\<close>. No integer is the value of that product, so the length of the array
  is the parameter \<open>alloc\<close>, applied to \<open>NumAttr\<close> and \<open>num\<close>.
\<close>

definition full_store_entities ::
  "(nat \<Rightarrow> nat \<Rightarrow> error + nat) \<Rightarrow> nat \<Rightarrow> ('e list \<Rightarrow> 'f buffer \<Rightarrow> error + 'f buffer)
     \<Rightarrow> 'e list \<Rightarrow> 'f Observation \<Rightarrow> error + 'f Observation" where
  "full_store_entities alloc NumAttr copy entities obs =
     and_then (int_of_size (length entities)) (\<lambda>num.
     and_then (alloc NumAttr num) (\<lambda>len.
       let data1 = data obs @ [new_float len]
       in and_then (int_of_size (length data1 - 1)) (\<lambda>index.
          and_then (copy entities (data1 ! index)) (\<lambda>buffer.
            Inr \<lparr>data = data1[index := buffer],
                 shapes = shapes obs @ [[int num, int NumAttr]]\<rparr>))))"

text \<open>
  The loop over \<^verbatim>\<open>game_state.players\<close> that ends both constructors; \<open>store_cells\<close>
  is \<^verbatim>\<open>_store_entities<Cell, 5>\<close> of the class.
\<close>

fun store_players ::
  "(('d, 'm) Cell list \<Rightarrow> 'f Observation \<Rightarrow> error + 'f Observation)
     \<Rightarrow> (pid \<times> ('d, 'm) Player) list \<Rightarrow> 'f Observation \<Rightarrow> error + 'f Observation" where
  "store_players store_cells [] obs = Inr obs"
| "store_players store_cells (pair # rest) obs =
     (let other_player = snd pair
      in and_then (store_cells (cells other_player) obs) (store_players store_cells rest))"

text \<open>The constructor of \<^verbatim>\<open>GridObservation\<close> (GridEnvironment.hpp lines 40 to 50).\<close>

definition GridObservation ::
  "('d \<Rightarrow> 'f) \<Rightarrow> ('m \<Rightarrow> 'f) \<Rightarrow> ('d, 'm) Player \<Rightarrow> ('d, 'm) GameState
     \<Rightarrow> error + 'f Observation" where
  "GridObservation cd cm player game_state =
     and_then (store_entities 2 (copy_entities cd) (pellets game_state) \<lparr>data = [], shapes = []\<rparr>) (\<lambda>obs.
     and_then (store_entities 2 (copy_entities cd) (viruses game_state) obs) (\<lambda>obs.
     and_then (store_entities 2 (copy_entities cd) (foods game_state) obs) (\<lambda>obs.
     and_then (store_entities 5 (copy_cells cd cm) (cells player) obs) (\<lambda>obs.
     store_players (store_entities 5 (copy_cells cd cm)) (players game_state) obs))))"

text \<open>The constructor of \<^verbatim>\<open>FullObservation\<close> (FullEnvironment.hpp lines 36 to 45).\<close>

definition FullObservation ::
  "(nat \<Rightarrow> nat \<Rightarrow> error + nat) \<Rightarrow> ('d \<Rightarrow> 'f) \<Rightarrow> ('m \<Rightarrow> 'f) \<Rightarrow> ('d, 'm) Player
     \<Rightarrow> ('d, 'm) GameState \<Rightarrow> error + 'f Observation" where
  "FullObservation alloc cd cm player game_state =
     and_then (full_store_entities alloc 2 (copy_entities cd) (pellets game_state)
                 \<lparr>data = [], shapes = []\<rparr>) (\<lambda>obs.
     and_then (full_store_entities alloc 2 (copy_entities cd) (viruses game_state) obs) (\<lambda>obs.
     and_then (full_store_entities alloc 2 (copy_entities cd) (foods game_state) obs) (\<lambda>obs.
     and_then (full_store_entities alloc 5 (copy_cells cd cm) (cells player) obs) (\<lambda>obs.
     store_players (full_store_entities alloc 5 (copy_cells cd cm)) (players game_state) obs))))"

section \<open>Environments\<close>

text \<open>
  Modelled from the spec: \<^verbatim>\<open>Engine\<close> (\<^verbatim>\<open>engine/Engine.hpp\<close>) is not part of the
  sources. The engine owns the world state.
\<close>

record ('d, 'm) Engine =
  state :: "('d, 'm) GameState"

text \<open>
  Modelled from the spec: \<^verbatim>\<open>Engine::get_game_state\<close>, missing from the sources, hands
  out the world state.
\<close>

definition get_game_state :: "('d, 'm) Engine \<Rightarrow> ('d, 'm) GameState" where
  "get_game_state eng = state eng"

text \<open>
  Modelled from the spec: \<^verbatim>\<open>Engine::get_player\<close>, missing from the sources, looks an
  identifier up in the player map, the single source of truth for such lookups, and
  fails with \<open>NotFound\<close> on an identifier that the map does not hold.
\<close>

definition get_player :: "('d, 'm) Engine \<Rightarrow> pid \<Rightarrow> error + ('d, 'm) Player" where
  "get_player eng p =
     (case map_of (players (state eng)) p of None \<Rightarrow> Inl NotFound | Some player \<Rightarrow> Inr player)"

text \<open>
  Modelled from the spec: \<^verbatim>\<open>BaseEnvironment\<close> (\<^verbatim>\<open>envs/BaseEnvironment.hpp\<close>) is not part
  of the sources. The derived classes read its members \<^verbatim>\<open>engine\<close> and \<^verbatim>\<open>pid\<close>, the
  identifier of the controlled player.
\<close>

record ('d, 'm) BaseEnvironment =
  engine :: "('d, 'm) Engine"
  env_pid :: pid

text \<open>
  The private members of \<^verbatim>\<open>GridEnvironment\<close> (GridEnvironment.hpp lines 155 to 160),
  in the order of their declaration; the leading underscore of each is dropped.
\<close>

record ('d, 'm) GridEnvironment = "('d, 'm) BaseEnvironment" +
  grid_size :: int
  arena_size :: int
  observe_cells :: bool
  observe_others :: bool
  observe_viruses :: bool
  observe_food :: bool

text \<open>
  The constructor of \<^verbatim>\<open>GridEnvironment\<close> (lines 106 to 120). \<open>Super\<close> is the constructor
  of the base class, which may reject its arguments; the argument \<^verbatim>\<open>arena_size\<close> is
  written \<open>arena_size'\<close>, since the member of that name is a constant here.
\<close>

definition GridEnvironment ::
  "(int \<Rightarrow> int \<Rightarrow> bool \<Rightarrow> int \<Rightarrow> int \<Rightarrow> int \<Rightarrow> error + ('d, 'm) BaseEnvironment)
     \<Rightarrow> int \<Rightarrow> int \<Rightarrow> bool \<Rightarrow> int \<Rightarrow> int \<Rightarrow> int \<Rightarrow> error + ('d, 'm) GridEnvironment" where
  "GridEnvironment Super frames_per_step arena_size' pellet_regen num_pellets num_viruses num_bots =
     and_then (Super frames_per_step arena_size' pellet_regen num_pellets num_viruses num_bots)
       (\<lambda>base. Inr (BaseEnvironment.extend base
          (GridEnvironment.fields 128 1000 True True True True)))"

text \<open>\<^verbatim>\<open>GridEnvironment::configure_observation\<close> (lines 125 to 131).\<close>

definition configure_observation ::
  "int \<Rightarrow> bool \<Rightarrow> bool \<Rightarrow> bool \<Rightarrow> bool \<Rightarrow> ('d, 'm) GridEnvironment \<Rightarrow> ('d, 'm) GridEnvironment" where
  "configure_observation grid_size' cells' others viruses' food env =
     env\<lparr>grid_size := grid_size', observe_cells := cells', observe_others := others,
         observe_viruses := viruses', observe_food := food\<rparr>"

text \<open>
  \<^verbatim>\<open>GridEnvironment::get_state\<close> (lines 139 to 142), a \<^verbatim>\<open>const\<close> member function: it
  returns the observation and leaves the environment as it is.
\<close>

definition get_state ::
  "('d \<Rightarrow> 'f) \<Rightarrow> ('m \<Rightarrow> 'f) \<Rightarrow> ('d, 'm, 'z) GridEnvironment_scheme \<Rightarrow> error + 'f Observation" where
  "get_state cd cm env =
     and_then (get_player (engine env) (env_pid env)) (\<lambda>player.
       GridObservation cd cm player (get_game_state (engine env)))"

text \<open>
  \<^verbatim>\<open>FullEnvironment::get_state\<close> (FullEnvironment.hpp lines 120 to 123), \<^verbatim>\<open>const\<close> as
  well. The class adds no member to its base when it is not renderable. The
  \<^verbatim>\<open>Observation\<close> that line 122 constructs is read as the \<^verbatim>\<open>FullObservation\<close> the
  function is declared to return.
\<close>

definition full_get_state ::
  "(nat \<Rightarrow> nat \<Rightarrow> error + nat) \<Rightarrow> ('d \<Rightarrow> 'f) \<Rightarrow> ('m \<Rightarrow> 'f) \<Rightarrow> ('d, 'm, 'z) BaseEnvironment_scheme
     \<Rightarrow> error + 'f Observation" where
  "full_get_state alloc cd cm env =
     and_then (get_player (engine env) (env_pid env)) (\<lambda>player.
       FullObservation alloc cd cm player (get_game_state (engine env)))"

section \<open>The layout the observations are to have\<close>

text \<open>
  The definitions of this section follow the words of the spec, not the code: the
  attributes of one entity, the buffer of a category, and the buffers and shapes of a
  whole observation. The code is compared with them below.
\<close>

definition spec_entity_layout :: "('d \<Rightarrow> 'f) \<Rightarrow> ('d, 'z) Ball_scheme \<Rightarrow> 'f list" where
  "spec_entity_layout cd e = [cd (ent_x e), cd (ent_y e)]"

definition spec_cell_layout :: "('d \<Rightarrow> 'f) \<Rightarrow> ('m \<Rightarrow> 'f) \<Rightarrow> ('d, 'm) Cell \<Rightarrow> 'f list" where
  "spec_cell_layout cd cm c = [cd (ent_x c), cd (ent_y c), cd (dx (velocity c)), cd (dy (velocity c)), cm (mass c)]"

definition spec_buffer :: "('e \<Rightarrow> 'f list) \<Rightarrow> 'e list \<Rightarrow> 'f buffer" where
  "spec_buffer layout es = map Some (concat (map layout es))"

text \<open>
  What an array of \<open>len\<close> floats holds once \<open>num\<close> entities of \<open>NumAttr\<close> attributes each
  have been written to its front: the layout, then the elements never written.
  \<open>spec_pad\<close> reads \<open>len\<close> off the allocation \<open>alloc\<close> of \<open>full_store_entities\<close>.
\<close>

definition spec_pad :: "(nat \<Rightarrow> nat \<Rightarrow> error + nat) \<Rightarrow> nat \<Rightarrow> nat \<Rightarrow> 'f buffer \<Rightarrow> 'f buffer" where
  "spec_pad alloc NumAttr num layout =
     layout @ replicate ((case alloc NumAttr num of Inr len \<Rightarrow> len | Inl e \<Rightarrow> 0) - num * NumAttr) None"

text \<open>
  The number of floats of a category fits an \<^verbatim>\<open>int\<close>; \<open>fits_all\<close>: so does that of
  every category of an observation, and the index of its last buffer.
\<close>

definition fits :: "nat \<Rightarrow> 'e list \<Rightarrow> bool" where
  "fits NumAttr entities = (NumAttr * length entities \<le> INT_MAX)"

definition fits_all :: "('d, 'm) Player \<Rightarrow> ('d, 'm) GameState \<Rightarrow> bool" where
  "fits_all player game_state =
     (fits 2 (pellets game_state) \<and> fits 2 (viruses game_state) \<and> fits 2 (foods game_state)
      \<and> fits 5 (cells player)
      \<and> list_all (\<lambda>pair. fits 5 (cells (snd pair))) (players game_state)
      \<and> length (players game_state) + 3 \<le> INT_MAX)"

text \<open>
  The buffers and shapes of an observation of \<open>player\<close> in \<open>game_state\<close>: pellets,
  viruses, foods, the cells of \<open>player\<close>, then the cells of every entry of the player
  map.
\<close>

definition spec_data ::
  "('d \<Rightarrow> 'f) \<Rightarrow> ('m \<Rightarrow> 'f) \<Rightarrow> ('d, 'm) Player \<Rightarrow> ('d, 'm) GameState \<Rightarrow> 'f buffer list" where
  "spec_data cd cm player game_state =
     [spec_buffer (spec_entity_layout cd) (pellets game_state),
      spec_buffer (spec_entity_layout cd) (viruses game_state),
      spec_buffer (spec_entity_layout cd) (foods game_state),
      spec_buffer (spec_cell_layout cd cm) (cells player)]
     @ map (\<lambda>pair. spec_buffer (spec_cell_layout cd cm) (cells (snd pair))) (players game_state)"

definition spec_shapes :: "('d, 'm) Player \<Rightarrow> ('d, 'm) GameState \<Rightarrow> int list list" where
  "spec_shapes player game_state =
     [[int (length (pellets game_state)), 2],
      [int (length (viruses game_state)), 2],
      [int (length (foods game_state)), 2],
      [int (length (cells player)), 5]]
     @ map (\<lambda>pair. [int (length (cells (snd pair))), 5]) (players game_state)"

definition spec_full_data ::
  "(nat \<Rightarrow> nat \<Rightarrow> error + nat) \<Rightarrow> ('d \<Rightarrow> 'f) \<Rightarrow> ('m \<Rightarrow> 'f) \<Rightarrow> ('d, 'm) Player
     \<Rightarrow> ('d, 'm) GameState \<Rightarrow> 'f buffer list" where
  "spec_full_data alloc cd cm player game_state =
     [spec_pad alloc 2 (length (pellets game_state))
        (spec_buffer (spec_entity_layout cd) (pellets game_state)),
      spec_pad alloc 2 (length (viruses game_state))
        (spec_buffer (spec_entity_layout cd) (viruses game_state)),
      spec_pad alloc 2 (length (foods game_state))
        (spec_buffer (spec_entity_layout cd) (foods game_state)),
      spec_pad alloc 5 (length (cells player)) (spec_buffer (spec_cell_layout cd cm) (cells player))]
     @ map (\<lambda>pair. spec_pad alloc 5 (length (cells (snd pair)))
                     (spec_buffer (spec_cell_layout cd cm) (cells (snd pair))))
         (players game_state)"

section \<open>The copy loops\<close>

lemma spec_buffer_Nil [simp]: "spec_buffer layout [] = []"
  by (simp add: spec_buffer_def)

lemma spec_buffer_Cons: "spec_buffer layout (e # es) = map Some (layout e) @ spec_buffer layout es"
  by (simp add: spec_buffer_def)

lemma spec_buffer_entity_Cons:
  "spec_buffer (spec_entity_layout cd) (e # es)
     = Some (cd (ent_x e)) # Some (cd (ent_y e)) # spec_buffer (spec_entity_layout cd) es"
  unfolding spec_buffer_Cons by (simp add: spec_entity_layout_def)

lemma and_then_Inr [simp]: "and_then (Inr v) f = f v"
  by (simp add: and_then_def)

lemma and_then_Inl [simp]: "and_then (Inl e) f = Inl e"
  by (simp add: and_then_def)

lemma store_ok: "i < length b \<Longrightarrow> store b i v = Inr (b[i := Some v])"
  by (simp add: store_def)

lemma take2_upd:
  assumes "n + 2 \<le> length b"
  shows "take (n + 2) (b[n := a, Suc n := c]) = take n b @ [a, c]"
  using assms
  by (simp add: take_Suc_conv_app_nth nth_list_update)

lemma copy_entities_from_ok:
  "i * 2 + length es * 2 \<le> length b \<Longrightarrow>
   copy_entities_from cd i es b
     = Inr (take (i * 2) b @ spec_buffer (spec_entity_layout cd) es @ drop (i * 2 + length es * 2) b)"
proof (induction es arbitrary: i b)
  case Nil
  then show ?case by simp
next
  case (Cons e es)
  let ?b2 = "b[i * 2 := Some (cd (ent_x e)), Suc (i * 2) := Some (cd (ent_y e))]"
  have len: "(i + 1) * 2 + length es * 2 \<le> length ?b2" using Cons.prems by simp
  have t: "take ((i + 1) * 2) ?b2 = take (i * 2) b @ [Some (cd (ent_x e)), Some (cd (ent_y e))]"
    using take2_upd[of "i * 2" b] Cons.prems by simp
  have d: "drop ((i + 1) * 2 + length es * 2) ?b2 = drop (i * 2 + length (e # es) * 2) b"
    by simp
  have "copy_entities_from cd i (e # es) b = copy_entities_from cd (i + 1) es ?b2"
    using Cons.prems by (simp add: store_ok)
  also have "\<dots> = Inr (take ((i + 1) * 2) ?b2 @ spec_buffer (spec_entity_layout cd) es @ drop ((i + 1) * 2 + length es * 2) ?b2)"
    using Cons.IH[OF len] .
  finally show ?case
    by (simp only: t d spec_buffer_entity_Cons) simp
qed

lemma copy_entities_from_fail:
  "es \<noteq> [] \<Longrightarrow> \<not> i * 2 + length es * 2 \<le> length b \<Longrightarrow>
   copy_entities_from cd i es b = Inl OutOfBounds"
proof (induction es arbitrary: i b)
  case Nil
  then show ?case by simp
next
  case (Cons e es)
  show ?case
  proof (cases "Suc (i * 2) < length b")
    case False
    then show ?thesis by (simp add: store_def)
  next
    case True
    let ?b2 = "b[i * 2 := Some (cd (ent_x e)), Suc (i * 2) := Some (cd (ent_y e))]"
    from True Cons.prems have ne: "es \<noteq> []" by (cases es) auto
    have short: "\<not> (i + 1) * 2 + length es * 2 \<le> length ?b2" using Cons.prems by simp
    have "copy_entities_from cd i (e # es) b = copy_entities_from cd (i + 1) es ?b2"
      using True by (simp add: store_ok)
    then show ?thesis using Cons.IH[OF ne short] by simp
  qed
qed

lemma copy_entities_new:
  "copy_entities cd es (new_float len)
     = (if length es * 2 \<le> len
        then Inr (spec_buffer (spec_entity_layout cd) es @ replicate (len - length es * 2) None)
        else Inl OutOfBounds)"
proof (cases "length es * 2 \<le> len")
  case True
  then show ?thesis
    using copy_entities_from_ok[of 0 es "new_float len" cd]
    by (simp add: copy_entities_def new_float_def)
next
  case False
  then have "es \<noteq> []" by auto
  then show ?thesis
    using False copy_entities_from_fail[of es 0 "new_float len" cd]
    by (simp add: copy_entities_def new_float_def)
qed

lemma spec_buffer_cell_Cons:
  "spec_buffer (spec_cell_layout cd cm) (c # cs)
     = Some (cd (ent_x c)) # Some (cd (ent_y c)) # Some (cd (dx (velocity c)))
       # Some (cd (dy (velocity c))) # Some (cm (mass c)) # spec_buffer (spec_cell_layout cd cm) cs"
  unfolding spec_buffer_Cons by (simp add: spec_cell_layout_def)

lemma take5_upd:
  assumes "n + 5 \<le> length b"
  shows "take (n + 5) (b[n := a0, n + 1 := a1, n + 2 := a2, n + 3 := a3, n + 4 := a4])
           = take n b @ [a0, a1, a2, a3, a4]"
proof -
  have e: "n + 5 = Suc (Suc (Suc (Suc (Suc n))))" "n + 4 = Suc (Suc (Suc (Suc n)))"
    "n + 3 = Suc (Suc (Suc n))" "n + 2 = Suc (Suc n)" "n + 1 = Suc n"
    by simp_all
  show ?thesis using assms unfolding e
    by (simp add: take_Suc_conv_app_nth nth_list_update)
qed

lemma drop5_upd:
  assumes "n + 5 \<le> m"
  shows "drop m (b[n := a0, n + 1 := a1, n + 2 := a2, n + 3 := a3, n + 4 := a4]) = drop m b"
  using assms by (simp add: drop_update_cancel)

lemma copy_cells_from_ok:
  "i * 5 + length cs * 5 \<le> length b \<Longrightarrow>
   copy_cells_from cd cm i cs b
     = Inr (take (i * 5) b @ spec_buffer (spec_cell_layout cd cm) cs @ drop (i * 5 + length cs * 5) b)"
proof (induction cs arbitrary: i b)
  case Nil
  then show ?case by simp
next
  case (Cons c cs)
  let ?b5 = "b[i * 5 := Some (cd (ent_x c)), i * 5 + 1 := Some (cd (ent_y c)),
               i * 5 + 2 := Some (cd (dx (velocity c))), i * 5 + 3 := Some (cd (dy (velocity c))),
               i * 5 + 4 := Some (cm (mass c))]"
  have len: "(i + 1) * 5 + length cs * 5 \<le> length ?b5" using Cons.prems by simp
  have t: "take ((i + 1) * 5) ?b5
             = take (i * 5) b @ [Some (cd (ent_x c)), Some (cd (ent_y c)),
                 Some (cd (dx (velocity c))), Some (cd (dy (velocity c))), Some (cm (mass c))]"
    using take5_upd[of "i * 5" b] Cons.prems by (simp add: add.commute)
  have m: "(i + 1) * 5 + length cs * 5 = i * 5 + length (c # cs) * 5" by simp
  have d: "drop ((i + 1) * 5 + length cs * 5) ?b5 = drop (i * 5 + length (c # cs) * 5) b"
    unfolding m by (rule drop5_upd) simp
  have "copy_cells_from cd cm i (c # cs) b = copy_cells_from cd cm (i + 1) cs ?b5"
    using Cons.prems by (simp add: store_ok)
  also have "\<dots> = Inr (take ((i + 1) * 5) ?b5 @ spec_buffer (spec_cell_layout cd cm) cs
                         @ drop ((i + 1) * 5 + length cs * 5) ?b5)"
    using Cons.IH[OF len] .
  finally show ?case
    by (simp only: t d spec_buffer_cell_Cons) simp
qed

lemma copy_cells_from_fail:
  "cs \<noteq> [] \<Longrightarrow> \<not> i * 5 + length cs * 5 \<le> length b \<Longrightarrow>
   copy_cells_from cd cm i cs b = Inl OutOfBounds"
proof (induction cs arbitrary: i b)
  case Nil
  then show ?case by simp
next
  case (Cons c cs)
  show ?case
  proof (cases "i * 5 + 4 < length b")
    case False
    then show ?thesis by (simp add: store_def)
  next
    case True
    let ?b5 = "b[i * 5 := Some (cd (ent_x c)), i * 5 + 1 := Some (cd (ent_y c)),
               i * 5 + 2 := Some (cd (dx (velocity c))), i * 5 + 3 := Some (cd (dy (velocity c))),
               i * 5 + 4 := Some (cm (mass c))]"
    from True Cons.prems have ne: "cs \<noteq> []" by (cases cs) auto
    have short: "\<not> (i + 1) * 5 + length cs * 5 \<le> length ?b5" using Cons.prems by simp
    have "copy_cells_from cd cm i (c # cs) b = copy_cells_from cd cm (i + 1) cs ?b5"
      using True by (simp add: store_ok)
    then show ?thesis using Cons.IH[OF ne short] by simp
  qed
qed

lemma copy_cells_new:
  "copy_cells cd cm cs (new_float len)
     = (if length cs * 5 \<le> len
        then Inr (spec_buffer (spec_cell_layout cd cm) cs @ replicate (len - length cs * 5) None)
        else Inl OutOfBounds)"
proof (cases "length cs * 5 \<le> len")
  case True
  then show ?thesis
    using copy_cells_from_ok[of 0 cs "new_float len" cd cm]
    by (simp add: copy_cells_def new_float_def)
next
  case False
  then have "cs \<noteq> []" by auto
  then show ?thesis
    using False copy_cells_from_fail[of cs 0 "new_float len" cd cm]
    by (simp add: copy_cells_def new_float_def)
qed

section \<open>Storing one category\<close>

lemma full_store_entities_eq:
  assumes copy: "\<And>len. copy es (new_float len)
     = (if length es * k \<le> len then Inr (enc @ replicate (len - length es * k) None)
        else Inl OutOfBounds)"
  shows "full_store_entities alloc k copy es obs =
     and_then (int_of_size (length es)) (\<lambda>num. and_then (alloc k num) (\<lambda>len.
     and_then (int_of_size (length (data obs))) (\<lambda>index.
        if num * k \<le> len
        then Inr \<lparr>data = data obs @ [enc @ replicate (len - num * k) None],
                 shapes = shapes obs @ [[int num, int k]]\<rparr>
        else Inl OutOfBounds)))"
proof (cases "length es \<le> INT_MAX")
  case False
  then show ?thesis by (simp add: full_store_entities_def int_of_size_def)
next
  case True
  show ?thesis
  proof (cases "alloc k (length es)")
    case (Inl e)
    then show ?thesis using True by (simp add: full_store_entities_def int_of_size_def)
  next
    case (Inr len)
    then show ?thesis using True
      by (simp add: full_store_entities_def int_of_size_def Let_def copy)
  qed
qed

lemma full_store_entities_Inr:
  assumes copy: "\<And>len. copy es (new_float len)
     = (if length es * k \<le> len then Inr (enc @ replicate (len - length es * k) None)
        else Inl OutOfBounds)"
    and ok: "full_store_entities alloc k copy es obs = Inr obs'"
  shows "obs' = \<lparr>data = data obs @ [spec_pad alloc k (length es) enc],
                 shapes = shapes obs @ [[int (length es), int k]]\<rparr>"
proof -
  note eq = full_store_entities_eq[where copy = copy and es = es and k = k and enc = enc, OF copy]
  show ?thesis using ok unfolding eq
    by (auto simp: int_of_size_def spec_pad_def and_then_def split: if_splits sum.splits)
qed

lemma store_entities_full: "store_entities = full_store_entities int_mul"
  by (intro ext) (simp add: store_entities_def full_store_entities_def)

lemma store_entities_eq:
  assumes copy: "\<And>len. copy es (new_float len)
     = (if length es * k \<le> len then Inr (enc @ replicate (len - length es * k) None)
        else Inl OutOfBounds)"
    and k: "0 < k"
  shows "store_entities k copy es obs =
     (if fits k es \<and> length (data obs) \<le> INT_MAX
      then Inr \<lparr>data = data obs @ [enc], shapes = shapes obs @ [[int (length es), int k]]\<rparr>
      else Inl IntOverflow)"
proof -
  note eq = full_store_entities_eq[where copy = copy and es = es and k = k and enc = enc, OF copy]
  have "length es \<le> k * length es" using k by simp
  then have le: "k * length es \<le> INT_MAX \<Longrightarrow> length es \<le> INT_MAX"
    by (rule le_trans)
  show ?thesis
    unfolding store_entities_full eq
    by (auto simp: int_of_size_def int_mul_def fits_def mult.commute dest: le)
qed

lemma store_entities_2:
  "store_entities 2 (copy_entities cd) es obs =
     (if fits 2 es \<and> length (data obs) \<le> INT_MAX
      then Inr \<lparr>data = data obs @ [spec_buffer (spec_entity_layout cd) es],
               shapes = shapes obs @ [[int (length es), 2]]\<rparr>
      else Inl IntOverflow)"
  using store_entities_eq[where k = 2 and copy = "copy_entities cd" and es = es
      and enc = "spec_buffer (spec_entity_layout cd) es" and obs = obs]
  by (simp add: copy_entities_new)

lemma store_entities_5:
  "store_entities 5 (copy_cells cd cm) cs obs =
     (if fits 5 cs \<and> length (data obs) \<le> INT_MAX
      then Inr \<lparr>data = data obs @ [spec_buffer (spec_cell_layout cd cm) cs],
               shapes = shapes obs @ [[int (length cs), 5]]\<rparr>
      else Inl IntOverflow)"
  using store_entities_eq[where k = 5 and copy = "copy_cells cd cm" and es = cs
      and enc = "spec_buffer (spec_cell_layout cd cm) cs" and obs = obs]
  by (simp add: copy_cells_new)

lemma full_store_entities_2:
  "full_store_entities alloc 2 (copy_entities cd) es obs = Inr obs' \<Longrightarrow>
   obs' = \<lparr>data = data obs @ [spec_pad alloc 2 (length es) (spec_buffer (spec_entity_layout cd) es)],
           shapes = shapes obs @ [[int (length es), 2]]\<rparr>"
  using full_store_entities_Inr[where k = 2 and copy = "copy_entities cd" and es = es
      and enc = "spec_buffer (spec_entity_layout cd) es" and obs = obs and obs' = obs'
      and alloc = alloc]
  by (simp add: copy_entities_new)

lemma full_store_entities_5:
  "full_store_entities alloc 5 (copy_cells cd cm) cs obs = Inr obs' \<Longrightarrow>
   obs' = \<lparr>data = data obs @ [spec_pad alloc 5 (length cs) (spec_buffer (spec_cell_layout cd cm) cs)],
           shapes = shapes obs @ [[int (length cs), 5]]\<rparr>"
  using full_store_entities_Inr[where k = 5 and copy = "copy_cells cd cm" and es = cs
      and enc = "spec_buffer (spec_cell_layout cd cm) cs" and obs = obs and obs' = obs'
      and alloc = alloc]
  by (simp add: copy_cells_new)


lemma and_then_eq_Inr: "and_then m f = Inr v \<longleftrightarrow> (\<exists>u. m = Inr u \<and> f u = Inr v)"
  by (cases m) simp_all

lemma store_players_grid:
  "store_players (store_entities 5 (copy_cells cd cm)) ps obs =
     (if list_all (\<lambda>pair. fits 5 (cells (snd pair))) ps
         \<and> (ps = [] \<or> length (data obs) + length ps \<le> Suc INT_MAX)
      then Inr \<lparr>data = data obs @ map (\<lambda>pair. spec_buffer (spec_cell_layout cd cm) (cells (snd pair))) ps,
               shapes = shapes obs @ map (\<lambda>pair. [int (length (cells (snd pair))), 5]) ps\<rparr>
      else Inl IntOverflow)"
proof (induction ps arbitrary: obs)
  case Nil
  then show ?case by simp
next
  case (Cons pair ps)
  show ?case
  proof (cases "fits 5 (cells (snd pair)) \<and> length (data obs) \<le> INT_MAX")
    case True
    have step: "store_entities 5 (copy_cells cd cm) (cells (snd pair)) obs
        = Inr \<lparr>data = data obs @ [spec_buffer (spec_cell_layout cd cm) (cells (snd pair))],
                 shapes = shapes obs @ [[int (length (cells (snd pair))), 5]]\<rparr>"
      using True by (simp add: store_entities_5)
    have "ps = [] \<or> length (data obs) + Suc (length ps) \<le> Suc INT_MAX
        \<longleftrightarrow> length (data obs) + Suc (length ps) \<le> Suc INT_MAX"
      using True by auto
    then show ?thesis
      using True by (simp only: store_players.simps Let_def step and_then_Inr Cons.IH) auto
  next
    case False
    have step: "store_entities 5 (copy_cells cd cm) (cells (snd pair)) obs = Inl IntOverflow"
      using False by (simp add: store_entities_5)
    show ?thesis
      using False by (simp only: store_players.simps Let_def step and_then_Inl) auto
  qed
qed

lemma store_players_full:
  "store_players (full_store_entities alloc 5 (copy_cells cd cm)) ps obs = Inr obs' \<Longrightarrow>
   obs' = \<lparr>data = data obs @ map (\<lambda>pair. spec_pad alloc 5 (length (cells (snd pair)))
                                   (spec_buffer (spec_cell_layout cd cm) (cells (snd pair)))) ps,
           shapes = shapes obs @ map (\<lambda>pair. [int (length (cells (snd pair))), 5]) ps\<rparr>"
proof (induction ps arbitrary: obs)
  case Nil
  then show ?case by simp
next
  case (Cons pair ps)
  from Cons.prems obtain obs1 where
    first: "full_store_entities alloc 5 (copy_cells cd cm) (cells (snd pair)) obs = Inr obs1" and
    rest: "store_players (full_store_entities alloc 5 (copy_cells cd cm)) ps obs1 = Inr obs'"
    by (auto simp: Let_def and_then_eq_Inr)
  show ?case
    using Cons.IH[OF rest] full_store_entities_5[OF first] by simp
qed

section \<open>The constructors\<close>

lemma GridObservation_eq:
  "GridObservation cd cm player game_state =
     (if fits_all player game_state
      then Inr \<lparr>data = spec_data cd cm player game_state, shapes = spec_shapes player game_state\<rparr>
      else Inl IntOverflow)"
proof -
  have small: "Suc (Suc (Suc 0)) \<le> INT_MAX"
    by (simp add: INT_MAX_def)
  then have idx: "players game_state = [] \<or> Suc (Suc (Suc (length (players game_state)))) \<le> INT_MAX
      \<longleftrightarrow> length (players game_state) + 3 \<le> INT_MAX"
    by (cases "players game_state") auto
  show ?thesis
    using small
    by (simp add: GridObservation_def store_entities_2 store_entities_5 store_players_grid
        fits_all_def spec_data_def spec_shapes_def idx)
qed

lemma FullObservation_Inr:
  assumes "FullObservation alloc cd cm player game_state = Inr obs"
  shows "obs = \<lparr>data = spec_full_data alloc cd cm player game_state,
                shapes = spec_shapes player game_state\<rparr>"
proof -
  from assms obtain o1 o2 o3 o4 where
    s1: "full_store_entities alloc 2 (copy_entities cd) (pellets game_state) \<lparr>data = [], shapes = []\<rparr> = Inr o1" and
    s2: "full_store_entities alloc 2 (copy_entities cd) (viruses game_state) o1 = Inr o2" and
    s3: "full_store_entities alloc 2 (copy_entities cd) (foods game_state) o2 = Inr o3" and
    s4: "full_store_entities alloc 5 (copy_cells cd cm) (cells player) o3 = Inr o4" and
    s5: "store_players (full_store_entities alloc 5 (copy_cells cd cm)) (players game_state) o4 = Inr obs"
    unfolding FullObservation_def and_then_eq_Inr by blast
  show ?thesis
    using full_store_entities_2[OF s1] full_store_entities_2[OF s2] full_store_entities_2[OF s3]
      full_store_entities_5[OF s4] store_players_full[OF s5]
    by (simp add: spec_full_data_def spec_shapes_def)
qed

section \<open>What a category's shape and buffer are to be\<close>

text \<open>
  In the words of the spec: the shape descriptor is (count, attributes per entity), the
  buffer holds count times that many floats, and entry \<open>i\<close> holds the attributes of
  entity \<open>i\<close>: \<open>(x, y)\<close> for a pellet, a virus or a food.
\<close>

definition holds_entities :: "('d \<Rightarrow> 'f) \<Rightarrow> ('d, 'z) Ball_scheme list \<Rightarrow> int list \<Rightarrow> 'f buffer \<Rightarrow> bool" where
  "holds_entities cd entities shp buf \<longleftrightarrow>
     shp = [int (length entities), 2] \<and> length buf = length entities * 2
     \<and> (\<forall>i < length entities.
           buf ! (i * 2 + 0) = Some (cd (ent_x (entities ! i)))
         \<and> buf ! (i * 2 + 1) = Some (cd (ent_y (entities ! i))))"

text \<open>The same for cells, whose attributes are \<open>(x, y, velocity_x, velocity_y, mass)\<close>.\<close>

definition holds_cells :: "('d \<Rightarrow> 'f) \<Rightarrow> ('m \<Rightarrow> 'f) \<Rightarrow> ('d, 'm) Cell list \<Rightarrow> int list \<Rightarrow> 'f buffer \<Rightarrow> bool" where
  "holds_cells cd cm cs shp buf \<longleftrightarrow>
     shp = [int (length cs), 5] \<and> length buf = length cs * 5
     \<and> (\<forall>i < length cs.
           buf ! (i * 5 + 0) = Some (cd (ent_x (cs ! i)))
         \<and> buf ! (i * 5 + 1) = Some (cd (ent_y (cs ! i)))
         \<and> buf ! (i * 5 + 2) = Some (cd (dx (velocity (cs ! i))))
         \<and> buf ! (i * 5 + 3) = Some (cd (dy (velocity (cs ! i))))
         \<and> buf ! (i * 5 + 4) = Some (cm (mass (cs ! i))))"

lemma spec_buffer_length:
  "(\<And>e. length (layout e) = k) \<Longrightarrow> length (spec_buffer layout es) = length es * k"
  by (induction es) (simp_all add: spec_buffer_Cons)

lemma spec_buffer_nth:
  assumes k: "\<And>e. length (layout e) = k"
  shows "i < length es \<Longrightarrow> j < k \<Longrightarrow> spec_buffer layout es ! (i * k + j) = Some (layout (es ! i) ! j)"
proof (induction es arbitrary: i)
  case Nil
  then show ?case by simp
next
  case (Cons e es)
  show ?case
  proof (cases i)
    case 0
    then show ?thesis using Cons.prems k by (simp add: spec_buffer_Cons nth_append)
  next
    case (Suc i')
    then have "i' < length es" using Cons.prems by simp
    from Cons.IH[OF this Cons.prems(2)] show ?thesis
      using Suc k by (simp add: spec_buffer_Cons nth_append)
  qed
qed

lemma holds_entities_spec:
  "holds_entities cd es [int (length es), 2] (spec_buffer (spec_entity_layout cd) es)"
proof -
  have k: "\<And>e. length (spec_entity_layout cd e) = 2" by (simp add: spec_entity_layout_def)
  have n: "\<And>i j. i < length es \<Longrightarrow> j < 2 \<Longrightarrow>
      spec_buffer (spec_entity_layout cd) es ! (i * 2 + j) = Some (spec_entity_layout cd (es ! i) ! j)"
    using spec_buffer_nth[of "spec_entity_layout cd" 2, OF k] by blast
  show ?thesis
    unfolding holds_entities_def
    using n[of _ 0] n[of _ 1] spec_buffer_length[of "spec_entity_layout cd" 2 es, OF k]
    by (simp add: spec_entity_layout_def)
qed

lemma holds_cells_spec:
  "holds_cells cd cm cs [int (length cs), 5] (spec_buffer (spec_cell_layout cd cm) cs)"
proof -
  have k: "\<And>e. length (spec_cell_layout cd cm e) = 5" by (simp add: spec_cell_layout_def)
  have n: "\<And>i j. i < length cs \<Longrightarrow> j < 5 \<Longrightarrow>
      spec_buffer (spec_cell_layout cd cm) cs ! (i * 5 + j) = Some (spec_cell_layout cd cm (cs ! i) ! j)"
    using spec_buffer_nth[of "spec_cell_layout cd cm" 5, OF k] by blast
  show ?thesis
    unfolding holds_cells_def
    using n[of _ 0] n[of _ 1] n[of _ 2] n[of _ 3] n[of _ 4]
      spec_buffer_length[of "spec_cell_layout cd cm" 5 cs, OF k]
    by (simp add: spec_cell_layout_def)
qed

section \<open>Observations of the grid environment\<close>

lemma get_state_eq:
  "get_player (engine env) (env_pid env) = Inr player \<Longrightarrow>
   get_state cd cm env =
     (if fits_all player (get_game_state (engine env))
      then Inr \<lparr>data = spec_data cd cm player (get_game_state (engine env)),
               shapes = spec_shapes player (get_game_state (engine env))\<rparr>
      else Inl IntOverflow)"
  by (simp add: get_state_def GridObservation_eq)

text \<open>
  C1. Every observation that \<^verbatim>\<open>GridEnvironment::get_state\<close> produces stores, for each
  category (pellets, viruses, food, the controlled player's cells, the cells of every
  entry of the player map), the shape (count, attributes per entity) with 2 attributes
  for pellets, viruses and food and 5 for cells, a buffer of exactly count times that
  many floats, and in entry \<open>i\<close> the attributes \<open>(x, y)\<close> of entity \<open>i\<close>, or
  \<open>(x, y, velocity_x, velocity_y, mass)\<close> of cell \<open>i\<close>, each converted to \<^verbatim>\<open>float\<close>.
  And \<^verbatim>\<open>get_state\<close> does produce an observation whenever the controlled player is
  in the player map and the number of floats of every category fits an \<^verbatim>\<open>int\<close>
  (\<open>fits_all\<close>). This is the grid environment's code. The full
  environment's \<^verbatim>\<open>_store_entities\<close> does not allocate count times attributes floats:
  see \<open>full_store_entities\<close>.
\<close>

theorem get_state_layout:
  assumes player: "get_player (engine env) (env_pid env) = Inr player"
    and gs: "game_state = get_game_state (engine env)"
  shows "(fits_all player game_state \<longrightarrow> (\<exists>obs. get_state cd cm env = Inr obs))
    \<and> (\<forall>obs. get_state cd cm env = Inr obs \<longrightarrow>
          holds_entities cd (pellets game_state) (shapes obs ! 0) (data obs ! 0)
        \<and> holds_entities cd (viruses game_state) (shapes obs ! 1) (data obs ! 1)
        \<and> holds_entities cd (foods game_state) (shapes obs ! 2) (data obs ! 2)
        \<and> holds_cells cd cm (cells player) (shapes obs ! 3) (data obs ! 3)
        \<and> (\<forall>j < length (players game_state).
              holds_cells cd cm (cells (snd (players game_state ! j)))
                (shapes obs ! (4 + j)) (data obs ! (4 + j))))"
proof (intro conjI allI impI)
  assume "fits_all player game_state"
  then show "\<exists>obs. get_state cd cm env = Inr obs"
    using get_state_eq[OF player, of cd cm] gs by simp
next
  fix obs
  assume "get_state cd cm env = Inr obs"
  then have obs: "obs = \<lparr>data = spec_data cd cm player game_state, shapes = spec_shapes player game_state\<rparr>"
    using get_state_eq[OF player, of cd cm] gs by (simp split: if_splits)
  show "holds_entities cd (pellets game_state) (shapes obs ! 0) (data obs ! 0)"
    unfolding obs by (simp add: spec_data_def spec_shapes_def holds_entities_spec)
  show "holds_entities cd (viruses game_state) (shapes obs ! 1) (data obs ! 1)"
    unfolding obs by (simp add: spec_data_def spec_shapes_def holds_entities_spec)
  show "holds_entities cd (foods game_state) (shapes obs ! 2) (data obs ! 2)"
    unfolding obs by (simp add: spec_data_def spec_shapes_def holds_entities_spec)
  show "holds_cells cd cm (cells player) (shapes obs ! 3) (data obs ! 3)"
    unfolding obs by (simp add: spec_data_def spec_shapes_def holds_cells_spec)
  fix j
  assume "j < length (players game_state)"
  then show "holds_cells cd cm (cells (snd (players game_state ! j)))
                (shapes obs ! (4 + j)) (data obs ! (4 + j))"
    unfolding obs by (simp add: spec_data_def spec_shapes_def holds_cells_spec nth_append)
qed

section \<open>An example world\<close>

text \<open>
  A controlled player 7 with one cell, a bot 9 with two, two pellets, one virus and no
  food; distances are reals, masses natural numbers, and the example's floats are the
  reals themselves.
\<close>

definition example_player :: "(real, nat) Player" where
  "example_player =
     \<lparr>player_pid = 7, player_name = ''agent'',
      cells = [\<lparr>ent_x = 10, ent_y = 20, velocity = \<lparr>dx = 1, dy = -1\<rparr>, mass = 25\<rparr>]\<rparr>"

definition example_bot :: "(real, nat) Player" where
  "example_bot =
     \<lparr>player_pid = 9, player_name = ''bot'',
      cells = [\<lparr>ent_x = 30, ent_y = 40, velocity = \<lparr>dx = 0, dy = 0\<rparr>, mass = 12\<rparr>,
               \<lparr>ent_x = 31, ent_y = 41, velocity = \<lparr>dx = 2, dy = 3\<rparr>, mass = 13\<rparr>]\<rparr>"

definition example_state :: "(real, nat) GameState" where
  "example_state =
     \<lparr>players = [(7, example_player), (9, example_bot)],
      pellets = [\<lparr>ent_x = 1, ent_y = 2\<rparr>, \<lparr>ent_x = 5, ent_y = 6\<rparr>],
      viruses = [\<lparr>ent_x = 3, ent_y = 4\<rparr>],
      foods = []\<rparr>"

definition example_env :: "(real, nat) GridEnvironment" where
  "example_env =
     \<lparr>engine = \<lparr>state = example_state\<rparr>, env_pid = 7,
      grid_size = 128, arena_size = 1000, observe_cells = True, observe_others = True,
      observe_viruses = True, observe_food = True\<rparr>"

text \<open>The observation of the example world, written out.\<close>

definition example_obs :: "real Observation" where
  "example_obs =
     \<lparr>data = [[Some 1, Some 2, Some 5, Some 6],
              [Some 3, Some 4],
              [],
              [Some 10, Some 20, Some 1, Some (-1), Some 25],
              [Some 10, Some 20, Some 1, Some (-1), Some 25],
              [Some 30, Some 40, Some 0, Some 0, Some 12, Some 31, Some 41, Some 2, Some 3, Some 13]],
      shapes = [[2, 2], [1, 2], [0, 2], [1, 5], [1, 5], [2, 5]]\<rparr>"

lemmas code_defs =
  get_state_def full_get_state_def get_player_def get_game_state_def
  GridObservation_def FullObservation_def store_entities_def full_store_entities_def
  copy_entities_def copy_cells_def store_def new_float_def int_of_size_def int_mul_def
  INT_MAX_def Let_def

lemmas example_defs =
  example_env_def example_state_def example_player_def example_bot_def example_obs_def

lemma example_get_player:
  "get_player (engine example_env) (env_pid example_env) = Inr example_player"
  by (simp add: get_player_def example_env_def example_state_def)

lemma example_get_state: "get_state (\<lambda>x. x) real example_env = Inr example_obs"
  by (simp add: code_defs example_defs) (simp add: eval_nat_numeral)

text \<open>The example world satisfies the hypotheses of C1, and its observation is as C1 says.\<close>

theorem get_state_layout_witness:
  "get_player (engine example_env) (env_pid example_env) = Inr example_player
   \<and> fits_all example_player example_state
   \<and> get_state (\<lambda>x. x) real example_env = Inr example_obs
   \<and> holds_entities (\<lambda>x. x) (pellets example_state) (shapes example_obs ! 0) (data example_obs ! 0)
   \<and> holds_entities (\<lambda>x. x) (viruses example_state) (shapes example_obs ! 1) (data example_obs ! 1)
   \<and> holds_entities (\<lambda>x. x) (foods example_state) (shapes example_obs ! 2) (data example_obs ! 2)
   \<and> holds_cells (\<lambda>x. x) real (cells example_player) (shapes example_obs ! 3) (data example_obs ! 3)
   \<and> holds_cells (\<lambda>x. x) real (cells example_player) (shapes example_obs ! 4) (data example_obs ! 4)
   \<and> holds_cells (\<lambda>x. x) real (cells example_bot) (shapes example_obs ! 5) (data example_obs ! 5)"
proof -
  have gs: "example_state = get_game_state (engine example_env)"
    by (simp add: get_game_state_def example_env_def)
  note t = get_state_layout[OF example_get_player gs, of "\<lambda>x. x" real]
  have all: "holds_entities (\<lambda>x. x) (pellets example_state) (shapes example_obs ! 0) (data example_obs ! 0)
        \<and> holds_entities (\<lambda>x. x) (viruses example_state) (shapes example_obs ! 1) (data example_obs ! 1)
        \<and> holds_entities (\<lambda>x. x) (foods example_state) (shapes example_obs ! 2) (data example_obs ! 2)
        \<and> holds_cells (\<lambda>x. x) real (cells example_player) (shapes example_obs ! 3) (data example_obs ! 3)
        \<and> (\<forall>j < length (players example_state).
              holds_cells (\<lambda>x. x) real (cells (snd (players example_state ! j)))
                (shapes example_obs ! (4 + j)) (data example_obs ! (4 + j)))"
    using t example_get_state by blast
  then have j: "\<And>j. j < length (players example_state) \<Longrightarrow>
              holds_cells (\<lambda>x. x) real (cells (snd (players example_state ! j)))
                (shapes example_obs ! (4 + j)) (data example_obs ! (4 + j))"
    by blast
  have "holds_cells (\<lambda>x. x) real (cells example_player) (shapes example_obs ! 4) (data example_obs ! 4)"
    using j[of 0] by (simp add: example_state_def)
  moreover have "holds_cells (\<lambda>x. x) real (cells example_bot) (shapes example_obs ! 5) (data example_obs ! 5)"
    using j[of 1] by (simp add: example_state_def)
  moreover have "fits_all example_player example_state"
    by (simp add: fits_all_def fits_def INT_MAX_def example_state_def example_player_def
        example_bot_def)
  ultimately show ?thesis
    using all example_get_player example_get_state by blast
qed

section \<open>Number and order of the buffers\<close>

lemma second_copy:
  assumes "(p, player) \<in> set ps"
  shows "\<exists>k. 4 \<le> k \<and> k < length ([a, b, c, f player] @ map (\<lambda>pair. f (snd pair)) ps)
           \<and> ([a, b, c, f player] @ map (\<lambda>pair. f (snd pair)) ps) ! k
               = ([a, b, c, f player] @ map (\<lambda>pair. f (snd pair)) ps) ! 3
           \<and> ([a', b', c', g player] @ map (\<lambda>pair. g (snd pair)) ps) ! k
               = ([a', b', c', g player] @ map (\<lambda>pair. g (snd pair)) ps) ! 3"
proof -
  from assms obtain j where j: "j < length ps" "ps ! j = (p, player)"
    by (auto simp: in_set_conv_nth)
  have "([a, b, c, f player] @ map (\<lambda>pair. f (snd pair)) ps) ! (4 + j) = f player"
    using j by (simp add: nth_append)
  moreover have "([a', b', c', g player] @ map (\<lambda>pair. g (snd pair)) ps) ! (4 + j) = g player"
    using j by (simp add: nth_append)
  ultimately show ?thesis using j(1) by (intro exI[of _ "4 + j"]) simp
qed

text \<open>
  C9. Every observation that \<^verbatim>\<open>GridObservation\<close> or \<^verbatim>\<open>FullObservation\<close> constructs has as
  many buffers as shapes, namely 4 plus the number of entries of the player map, in the
  order pellets, viruses, foods, the controlled player's cells, then one per entry of
  the player map in iteration order (\<open>spec_data\<close>, \<open>spec_full_data\<close>, \<open>spec_shapes\<close>). So
  when the controlled player is an entry of the player map, its cells appear a second
  time: some buffer from position 4 on equals buffer 3, with the same shape.
\<close>

theorem observation_order:
  "(GridObservation cd cm player game_state = Inr obs \<longrightarrow>
      data obs = spec_data cd cm player game_state)
   \<and> (FullObservation alloc cd cm player game_state = Inr obs \<longrightarrow>
      data obs = spec_full_data alloc cd cm player game_state)
   \<and> (GridObservation cd cm player game_state = Inr obs
        \<or> FullObservation alloc cd cm player game_state = Inr obs \<longrightarrow>
      shapes obs = spec_shapes player game_state
      \<and> length (data obs) = 4 + length (players game_state)
      \<and> length (shapes obs) = 4 + length (players game_state)
      \<and> (\<forall>p. (p, player) \<in> set (players game_state) \<longrightarrow>
            (\<exists>k. 4 \<le> k \<and> k < length (data obs)
               \<and> data obs ! k = data obs ! 3 \<and> shapes obs ! k = shapes obs ! 3)))"
proof -
  have grid: "data obs = spec_data cd cm player game_state \<and> shapes obs = spec_shapes player game_state"
    if "GridObservation cd cm player game_state = Inr obs"
    using that by (auto simp: GridObservation_eq split: if_splits)
  have full: "data obs = spec_full_data alloc cd cm player game_state
      \<and> shapes obs = spec_shapes player game_state"
    if "FullObservation alloc cd cm player game_state = Inr obs"
    using FullObservation_Inr[OF that] by simp
  have rest: "length (data obs) = 4 + length (players game_state)
      \<and> length (shapes obs) = 4 + length (players game_state)
      \<and> (\<forall>p. (p, player) \<in> set (players game_state) \<longrightarrow>
            (\<exists>k. 4 \<le> k \<and> k < length (data obs)
               \<and> data obs ! k = data obs ! 3 \<and> shapes obs ! k = shapes obs ! 3))"
    if d: "data obs = spec_data cd cm player game_state
            \<or> data obs = spec_full_data alloc cd cm player game_state"
      and s: "shapes obs = spec_shapes player game_state"
  proof (intro conjI allI impI)
    show "length (data obs) = 4 + length (players game_state)"
      using d by (auto simp: spec_data_def spec_full_data_def)
    show "length (shapes obs) = 4 + length (players game_state)"
      using s by (simp add: spec_shapes_def)
    fix p
    assume mem: "(p, player) \<in> set (players game_state)"
    from d show "\<exists>k. 4 \<le> k \<and> k < length (data obs)
               \<and> data obs ! k = data obs ! 3 \<and> shapes obs ! k = shapes obs ! 3"
    proof
      assume g: "data obs = spec_data cd cm player game_state"
      show ?thesis
        unfolding g s spec_data_def spec_shapes_def
        by (rule second_copy[OF mem,
            where f = "\<lambda>pl. spec_buffer (spec_cell_layout cd cm) (cells pl)"
              and g = "\<lambda>pl. [int (length (cells pl)), 5]"])
    next
      assume f: "data obs = spec_full_data alloc cd cm player game_state"
      show ?thesis
        unfolding f s spec_full_data_def spec_shapes_def
        by (rule second_copy[OF mem,
            where f = "\<lambda>pl. spec_pad alloc 5 (length (cells pl))
                            (spec_buffer (spec_cell_layout cd cm) (cells pl))"
              and g = "\<lambda>pl. [int (length (cells pl)), 5]"])
    qed
  qed
  show ?thesis using grid full rest by blast
qed


text \<open>
  For the example, the full observation's allocation is read as one float more than
  count times attributes; the last element of each of its arrays is never written.
\<close>

definition example_alloc :: "nat \<Rightarrow> nat \<Rightarrow> error + nat" where
  "example_alloc NumAttr num = Inr (NumAttr * num + 1)"

definition example_full_obs :: "real Observation" where
  "example_full_obs =
     \<lparr>data = [[Some 1, Some 2, Some 5, Some 6, None],
              [Some 3, Some 4, None],
              [None],
              [Some 10, Some 20, Some 1, Some (-1), Some 25, None],
              [Some 10, Some 20, Some 1, Some (-1), Some 25, None],
              [Some 30, Some 40, Some 0, Some 0, Some 12, Some 31, Some 41, Some 2, Some 3, Some 13,
               None]],
      shapes = [[2, 2], [1, 2], [0, 2], [1, 5], [1, 5], [2, 5]]\<rparr>"

lemma example_GridObservation:
  "GridObservation (\<lambda>x. x) real example_player example_state = Inr example_obs"
  by (simp add: code_defs example_defs) (simp add: eval_nat_numeral)

lemma example_FullObservation:
  "FullObservation example_alloc (\<lambda>x. x) real example_player example_state = Inr example_full_obs"
  by (simp add: code_defs example_defs example_alloc_def example_full_obs_def)
     (simp add: eval_nat_numeral)

text \<open>Both constructors return an observation of the example world, as C9 says.\<close>

theorem observation_order_witness:
  "GridObservation (\<lambda>x. x) real example_player example_state = Inr example_obs
   \<and> FullObservation example_alloc (\<lambda>x. x) real example_player example_state = Inr example_full_obs
   \<and> (7, example_player) \<in> set (players example_state)
   \<and> data example_obs = spec_data (\<lambda>x. x) real example_player example_state
   \<and> data example_full_obs = spec_full_data example_alloc (\<lambda>x. x) real example_player example_state
   \<and> shapes example_obs = spec_shapes example_player example_state
   \<and> shapes example_full_obs = spec_shapes example_player example_state
   \<and> length (data example_obs) = 4 + length (players example_state)
   \<and> length (shapes example_obs) = 4 + length (players example_state)
   \<and> length (data example_full_obs) = 4 + length (players example_state)
   \<and> length (shapes example_full_obs) = 4 + length (players example_state)
   \<and> (\<exists>k. 4 \<le> k \<and> k < length (data example_obs)
         \<and> data example_obs ! k = data example_obs ! 3
         \<and> shapes example_obs ! k = shapes example_obs ! 3)
   \<and> (\<exists>k. 4 \<le> k \<and> k < length (data example_full_obs)
         \<and> data example_full_obs ! k = data example_full_obs ! 3
         \<and> shapes example_full_obs ! k = shapes example_full_obs ! 3)"
proof -
  have mem: "(7, example_player) \<in> set (players example_state)"
    by (simp add: example_state_def)
  note g = observation_order[of "\<lambda>x. x" real example_player example_state example_obs example_alloc]
  note f = observation_order[of "\<lambda>x. x" real example_player example_state example_full_obs
      example_alloc]
  show ?thesis
    using g f mem example_GridObservation example_FullObservation by blast
qed

section \<open>Reading the state twice\<close>

text \<open>
  A call of a \<^verbatim>\<open>const\<close> member function, with the environment passed explicitly: the
  caller gets the observation, and the environment after the call is the environment
  before it.
\<close>

definition get_state_call ::
  "('d \<Rightarrow> 'f) \<Rightarrow> ('m \<Rightarrow> 'f) \<Rightarrow> ('d, 'm, 'z) GridEnvironment_scheme
     \<Rightarrow> (error + 'f Observation) \<times> ('d, 'm, 'z) GridEnvironment_scheme" where
  "get_state_call cd cm env = (get_state cd cm env, env)"

definition full_get_state_call ::
  "(nat \<Rightarrow> nat \<Rightarrow> error + nat) \<Rightarrow> ('d \<Rightarrow> 'f) \<Rightarrow> ('m \<Rightarrow> 'f) \<Rightarrow> ('d, 'm, 'z) BaseEnvironment_scheme
     \<Rightarrow> (error + 'f Observation) \<times> ('d, 'm, 'z) BaseEnvironment_scheme" where
  "full_get_state_call alloc cd cm env = (full_get_state alloc cd cm env, env)"

text \<open>
  C4. \<^verbatim>\<open>get_state\<close> reads nothing but the engine's world state and the controlled
  player's identifier. Two calls between which neither has changed (no \<^verbatim>\<open>step\<close> in
  between) return the same result: the same buffers, element by element, and the same
  shapes. A call leaves the environment, and with it the world state, as it was, so a
  second call right after the first returns what the first returned. This holds in
  every state, terminal or not, for the grid and for the full environment.
\<close>

theorem get_state_idempotent:
  assumes "engine env2 = engine env1" and "env_pid env2 = env_pid env1"
    and "engine fenv2 = engine fenv1" and "env_pid fenv2 = env_pid fenv1"
  shows "get_state cd cm env2 = get_state cd cm env1
    \<and> full_get_state alloc cd cm fenv2 = full_get_state alloc cd cm fenv1
    \<and> snd (get_state_call cd cm env1) = env1
    \<and> fst (get_state_call cd cm (snd (get_state_call cd cm env1))) = fst (get_state_call cd cm env1)
    \<and> snd (full_get_state_call alloc cd cm fenv1) = fenv1
    \<and> fst (full_get_state_call alloc cd cm (snd (full_get_state_call alloc cd cm fenv1)))
        = fst (full_get_state_call alloc cd cm fenv1)"
  using assms
  by (simp add: get_state_def full_get_state_def get_state_call_def full_get_state_call_def)

text \<open>
  In the example, the second call is made after \<^verbatim>\<open>configure_observation\<close>, which
  leaves engine and identifier alone.
\<close>

theorem get_state_idempotent_witness:
  "engine (configure_observation 64 False False False False example_env) = engine example_env
   \<and> env_pid (configure_observation 64 False False False False example_env) = env_pid example_env
   \<and> engine (BaseEnvironment.truncate example_env) = engine example_env
   \<and> env_pid (BaseEnvironment.truncate example_env) = env_pid example_env
   \<and> get_state (\<lambda>x. x) real (configure_observation 64 False False False False example_env)
       = get_state (\<lambda>x. x) real example_env
   \<and> full_get_state example_alloc (\<lambda>x. x) real (BaseEnvironment.truncate example_env)
       = full_get_state example_alloc (\<lambda>x. x) real example_env
   \<and> get_state (\<lambda>x. x) real example_env = Inr example_obs
   \<and> full_get_state example_alloc (\<lambda>x. x) real example_env = Inr example_full_obs
   \<and> get_state_call (\<lambda>x. x) real example_env = (Inr example_obs, example_env)
   \<and> full_get_state_call example_alloc (\<lambda>x. x) real example_env
       = (Inr example_full_obs, example_env)"
proof -
  have a: "engine (configure_observation 64 False False False False example_env) = engine example_env"
    and b: "env_pid (configure_observation 64 False False False False example_env) = env_pid example_env"
    by (simp_all add: configure_observation_def)
  have c: "engine (BaseEnvironment.truncate example_env) = engine example_env"
    and d: "env_pid (BaseEnvironment.truncate example_env) = env_pid example_env"
    by (simp_all add: BaseEnvironment.truncate_def)
  have full: "full_get_state example_alloc (\<lambda>x. x) real example_env = Inr example_full_obs"
    using example_FullObservation
    by (simp add: full_get_state_def get_player_def get_game_state_def example_env_def
        example_state_def)
  show ?thesis
    using get_state_idempotent[OF a b c d, of "\<lambda>x. x" real example_alloc] a b c d
      example_get_state full
    by (simp add: get_state_call_def full_get_state_call_def)
qed

section \<open>Configuring the observation\<close>

text \<open>
  \<^verbatim>\<open>get_state\<close> passes the player and the game state to \<^verbatim>\<open>GridObservation\<close> and
  nothing of what \<^verbatim>\<open>configure_observation\<close> has written, so its result is the same
  before and after that call, in every environment.
\<close>

lemma get_state_after_configure:
  "get_state cd cm (configure_observation grid_size' cells' others viruses' food env)
     = get_state cd cm env"
  by (simp add: get_state_def configure_observation_def)

text \<open>
  C2. The claim is that after \<^verbatim>\<open>configure_observation\<close> with a grid size and four
  flags the observation of \<^verbatim>\<open>get_state\<close> includes a category if and only if its
  flag was set, and is discretized by the configured grid size; the doc comment of
  \<^verbatim>\<open>configure_observation\<close> says as much (it configures the observation types that
  will be returned). The code does not do it. In the example world, with all four
  flags cleared and the grid size set to 64, the flags are stored as cleared, and
  \<^verbatim>\<open>get_state\<close> still returns every category, the virus, the controlled player's
  cell and the bot's cells among them: the very observation that grid size 1 with all
  flags set gives.
\<close>

theorem configure_observation_not_applied:
  "observe_cells (configure_observation 64 False False False False example_env) = False
   \<and> observe_others (configure_observation 64 False False False False example_env) = False
   \<and> observe_viruses (configure_observation 64 False False False False example_env) = False
   \<and> observe_food (configure_observation 64 False False False False example_env) = False
   \<and> get_state (\<lambda>x. x) real (configure_observation 64 False False False False example_env)
       = Inr \<lparr>data = [[Some 1, Some 2, Some 5, Some 6],
                       [Some 3, Some 4],
                       [],
                       [Some 10, Some 20, Some 1, Some (-1), Some 25],
                       [Some 10, Some 20, Some 1, Some (-1), Some 25],
                       [Some 30, Some 40, Some 0, Some 0, Some 12,
                        Some 31, Some 41, Some 2, Some 3, Some 13]],
               shapes = [[2, 2], [1, 2], [0, 2], [1, 5], [1, 5], [2, 5]]\<rparr>
   \<and> get_state (\<lambda>x. x) real (configure_observation 64 False False False False example_env)
       = get_state (\<lambda>x. x) real (configure_observation 1 True True True True example_env)"
  by (simp add: configure_observation_def code_defs example_defs) (simp add: eval_nat_numeral)

section \<open>Constructing the grid environment\<close>

text \<open>
  A base constructor for the example: it rejects an arena size that is not positive
  and otherwise sets up the example world.
\<close>

definition example_Super ::
  "int \<Rightarrow> int \<Rightarrow> bool \<Rightarrow> int \<Rightarrow> int \<Rightarrow> int \<Rightarrow> error + (real, nat) BaseEnvironment" where
  "example_Super frames_per_step arena_size' pellet_regen num_pellets num_viruses num_bots =
     (if arena_size' \<le> 0 then Inl InvalidArgument
      else Inr \<lparr>engine = \<lparr>state = example_state\<rparr>, env_pid = 7\<rparr>)"

text \<open>
  C10. Every \<^verbatim>\<open>GridEnvironment\<close> that the constructor yields has \<^verbatim>\<open>_arena_size\<close> 1000
  and \<^verbatim>\<open>_grid_size\<close> 128 (and the four flags set), whatever the six arguments are; the
  argument \<^verbatim>\<open>arena_size\<close> reaches only the base class, whose part of the object is what
  the base constructor returned for the six arguments. The constructor yields an
  environment whenever the base constructor does.
\<close>

theorem GridEnvironment_fields:
  "(\<forall>env. GridEnvironment Super frames_per_step arena_size' pellet_regen num_pellets num_viruses
            num_bots = Inr env \<longrightarrow>
        arena_size env = 1000 \<and> grid_size env = 128
        \<and> observe_cells env \<and> observe_others env \<and> observe_viruses env \<and> observe_food env
        \<and> Super frames_per_step arena_size' pellet_regen num_pellets num_viruses num_bots
            = Inr (BaseEnvironment.truncate env))
   \<and> (\<forall>base. Super frames_per_step arena_size' pellet_regen num_pellets num_viruses num_bots
            = Inr base \<longrightarrow>
        (\<exists>env. GridEnvironment Super frames_per_step arena_size' pellet_regen num_pellets
            num_viruses num_bots = Inr env))"
  by (auto simp: GridEnvironment_def and_then_eq_Inr BaseEnvironment.extend_def
      BaseEnvironment.truncate_def GridEnvironment.fields_def)

text \<open>Constructed with arena size 250, the example environment stores 1000.\<close>

theorem GridEnvironment_fields_witness:
  "example_Super 4 250 True 100 5 2 = Inr (BaseEnvironment.truncate example_env)
   \<and> GridEnvironment example_Super 4 250 True 100 5 2 = Inr example_env
   \<and> arena_size example_env = 1000 \<and> grid_size example_env = 128
   \<and> observe_cells example_env \<and> observe_others example_env
   \<and> observe_viruses example_env \<and> observe_food example_env"
proof -
  have s: "example_Super 4 250 True 100 5 2 = Inr (BaseEnvironment.truncate example_env)"
    by (simp add: example_Super_def example_env_def BaseEnvironment.truncate_def)
  have g: "GridEnvironment example_Super 4 250 True 100 5 2 = Inr example_env"
    by (simp add: GridEnvironment_def example_Super_def example_env_def
        BaseEnvironment.extend_def GridEnvironment.fields_def)
  show ?thesis
    using GridEnvironment_fields[of example_Super 4 250 True 100 5 2] s g by blast
qed

section \<open>The screen environment's binding\<close>

text \<open>
  \<^verbatim>\<open>screen_env_bindings.cpp\<close>, lines 10 and 18 to 21: the constants of the bound
  \<^verbatim>\<open>ScreenEnvironment\<close>. They are \<^verbatim>\<open>unsigned\<close>; every product below stays under
  \<open>2 ^ 32\<close>, so they are modelled as natural numbers.
\<close>

definition PIXEL_SIZE :: nat where
  "PIXEL_SIZE = 3"

definition Width :: nat where
  "Width = 256"

definition Height :: nat where
  "Height = 256"

definition NumFrames :: nat where
  "NumFrames = 4"

definition observation_size :: nat where
  "observation_size = NumFrames * Width * Height * PIXEL_SIZE"

text \<open>\<^verbatim>\<open>sizeof(std::uint8_t)\<close>.\<close>

definition sizeof_uint8 :: nat where
  "sizeof_uint8 = 1"

text \<open>
  What \<^verbatim>\<open>py::buffer_info(data, itemsize, format, ndim, shape, strides)\<close> describes;
  \<^verbatim>\<open>py::array_t<std::uint8_t>\<close> is built from it. \<open>'p\<close> is the type of the frame data
  the observation hands out (\<^verbatim>\<open>observation.frame_data()\<close>).
\<close>

record 'p buffer_info =
  ptr :: 'p
  itemsize :: nat
  format :: string
  ndim :: nat
  shape :: "int list"
  strides :: "int list"

text \<open>
  The lambda bound as \<^verbatim>\<open>get_state\<close> (lines 27 to 40). \<^verbatim>\<open>ScreenEnvironment\<close> is not
  part of the sources: \<open>env_get_state\<close> and \<open>frame_data\<close> are its \<^verbatim>\<open>get_state\<close> and
  the observation's \<^verbatim>\<open>frame_data\<close>. \<^verbatim>\<open>format_descriptor<std::uint8_t>::format()\<close>
  is the one-letter code \<^verbatim>\<open>B\<close>.
\<close>

definition screen_get_state :: "('env \<Rightarrow> 'obs) \<Rightarrow> ('obs \<Rightarrow> 'p) \<Rightarrow> 'env \<Rightarrow> 'p buffer_info" where
  "screen_get_state env_get_state frame_data env =
     (let observation = env_get_state env;
          data = frame_data observation;
          shape = [int NumFrames, int Width, int Height, int PIXEL_SIZE];
          strides = [int (Width * Height * PIXEL_SIZE * sizeof_uint8),
                     int (Height * PIXEL_SIZE), int (PIXEL_SIZE * sizeof_uint8),
                     int (1 * sizeof_uint8)]
      in \<lparr>ptr = data, itemsize = sizeof_uint8, format = ''B'', ndim = 4,
          shape = shape, strides = strides\<rparr>)"

text \<open>
  C8. Every array the binding's \<^verbatim>\<open>get_state\<close> returns has four dimensions of
  one-byte unsigned items and the shape (frames, width, height, channels) =
  (4, 256, 256, 3), whatever the environment and its observation are: the shape does
  not vary across calls. The shape holds \<open>observation_size\<close> items, and the strides
  are those of a contiguous row-major array of that shape.
\<close>

theorem screen_get_state_shape:
  "shape (screen_get_state env_get_state frame_data env) = [4, 256, 256, 3]
   \<and> shape (screen_get_state env_get_state frame_data env)
       = [int NumFrames, int Width, int Height, int PIXEL_SIZE]
   \<and> ndim (screen_get_state env_get_state frame_data env) = 4
   \<and> itemsize (screen_get_state env_get_state frame_data env) = 1
   \<and> format (screen_get_state env_get_state frame_data env) = ''B''
   \<and> prod_list (shape (screen_get_state env_get_state frame_data env)) = int observation_size
   \<and> strides (screen_get_state env_get_state frame_data env) = [256 * 256 * 3, 256 * 3, 3, 1]
   \<and> ptr (screen_get_state env_get_state frame_data env) = frame_data (env_get_state env)"
  by (simp add: screen_get_state_def Let_def NumFrames_def Width_def Height_def
      PIXEL_SIZE_def sizeof_uint8_def observation_size_def)

section \<open>Players\<close>

text \<open>
  Modelled from the spec: the classes \<^verbatim>\<open>Cell\<close> and \<^verbatim>\<open>Player\<close> (\<^verbatim>\<open>core/Entities.hpp\<close>,
  \<^verbatim>\<open>core/Player.hpp\<close>) are not part of the sources; only their tests
  (\<^verbatim>\<open>agario/test/test-core.hpp\<close>) are. A cell is constructed from a position and a
  mass; the spec gives a new cell no velocity, and it is zero here.
\<close>

definition Cell_new :: "'d::zero \<Rightarrow> 'd \<Rightarrow> 'm \<Rightarrow> ('d, 'm) Cell" where
  "Cell_new x y m = \<lparr>ent_x = x, ent_y = y, velocity = \<lparr>dx = 0, dy = 0\<rparr>, mass = m\<rparr>"

text \<open>
  Modelled from the spec: the constructor of \<^verbatim>\<open>Player\<close>, missing from the sources. A
  player is constructed from an identifier and a name, with no cells.
\<close>

definition Player_new :: "pid \<Rightarrow> string \<Rightarrow> ('d, 'm) Player" where
  "Player_new p n = \<lparr>player_pid = p, player_name = n, cells = []\<rparr>"

text \<open>
  Modelled from the spec: \<^verbatim>\<open>Player::dead\<close>, missing from the sources. A player is dead
  if and only if its cell collection is empty.
\<close>

definition dead :: "('d, 'm) Player \<Rightarrow> bool" where
  "dead player = (cells player = [])"

text \<open>
  Modelled from the spec: \<^verbatim>\<open>Player::add_cell\<close>, missing from the sources.
  \<^verbatim>\<open>add_cell(x, y, mass)\<close> appends a new cell. What the class does with a mass that is
  not positive is not in the sources (the test \<^verbatim>\<open>Player.Kill\<close> adds a cell of mass 0 and
  reads only \<^verbatim>\<open>dead()\<close>); the theorems below read only the positions and the number
  of the cells that \<^verbatim>\<open>add_cell\<close> appends.
\<close>

definition add_cell :: "'d::zero \<Rightarrow> 'd \<Rightarrow> 'm \<Rightarrow> ('d, 'm) Player \<Rightarrow> ('d, 'm) Player" where
  "add_cell x y m player = player\<lparr>cells := cells player @ [Cell_new x y m]\<rparr>"

text \<open>
  Modelled from the spec: \<^verbatim>\<open>Player::kill\<close>, missing from the sources. \<^verbatim>\<open>kill()\<close> clears
  all cells.
\<close>

definition kill :: "('d, 'm) Player \<Rightarrow> ('d, 'm) Player" where
  "kill player = player\<lparr>cells := []\<rparr>"

text \<open>
  Modelled from the spec: \<^verbatim>\<open>Player::x\<close> and \<^verbatim>\<open>Player::y\<close>, missing from the sources.
  They are the arithmetic mean of the positions of all owned cells, and guarded when
  there is none: \<open>None\<close>. Distances are the elements of a field here; the rounding of a
  floating-point \<^verbatim>\<open>agario::distance\<close> is not modelled.
\<close>

definition player_x :: "('d::field, 'm) Player \<Rightarrow> 'd option" where
  "player_x player =
     (if dead player then None
      else Some (sum_list (map ent_x (cells player)) / of_nat (length (cells player))))"

definition player_y :: "('d::field, 'm) Player \<Rightarrow> 'd option" where
  "player_y player =
     (if dead player then None
      else Some (sum_list (map ent_y (cells player)) / of_nat (length (cells player))))"

text \<open>
  C6. A newly constructed player is dead and has no cells; after any \<^verbatim>\<open>add_cell\<close> a
  player is alive; after \<^verbatim>\<open>kill\<close> it is dead again and has no cells; and a player is
  dead if and only if its cell collection is empty. (\<^verbatim>\<open>add_cell\<close> adds exactly one
  cell, and neither operation touches identifier or name.)
\<close>

theorem player_lifecycle:
  "dead (Player_new p n) \<and> cells (Player_new p n) = []
   \<and> \<not> dead (add_cell x y m player)
   \<and> dead (kill player) \<and> cells (kill player) = []
   \<and> dead player = (cells player = [])
   \<and> length (cells (add_cell x y m player)) = length (cells player) + 1
   \<and> player_pid (kill (add_cell x y m (Player_new p n))) = p
   \<and> player_name (kill (add_cell x y m (Player_new p n))) = n"
  by (simp add: dead_def Player_new_def add_cell_def kill_def)

text \<open>
  C5. For a player that owns at least one cell, \<^verbatim>\<open>x()\<close> and \<^verbatim>\<open>y()\<close> are the arithmetic
  means of the x and of the y positions of its cells. They do not depend on the masses:
  any player whose cells have the same positions, in the same order, has the same
  \<^verbatim>\<open>x()\<close> and \<^verbatim>\<open>y()\<close>. In particular a player with cells at (0,0) and (2,2), of any
  masses \<open>m1\<close> and \<open>m2\<close>, has \<^verbatim>\<open>x()\<close> = 1 and \<^verbatim>\<open>y()\<close> = 1.
\<close>

theorem player_centroid:
  fixes player :: "('d::field_char_0, 'm) Player"
  shows "(cells player \<noteq> [] \<longrightarrow>
        player_x player = Some (sum_list (map ent_x (cells player)) / of_nat (length (cells player)))
      \<and> player_y player = Some (sum_list (map ent_y (cells player)) / of_nat (length (cells player))))
    \<and> (\<forall>other :: ('d, 'm) Player.
          map ent_x (cells other) = map ent_x (cells player)
          \<and> map ent_y (cells other) = map ent_y (cells player)
          \<longrightarrow> player_x other = player_x player \<and> player_y other = player_y player)
    \<and> player_x (add_cell 2 2 m2 (add_cell 0 0 m1 (Player_new p n :: ('d, 'm) Player))) = Some 1
    \<and> player_y (add_cell 2 2 m2 (add_cell 0 0 m1 (Player_new p n :: ('d, 'm) Player))) = Some 1"
proof (intro conjI allI impI)
  fix other :: "('d, 'm) Player"
  assume eq: "map ent_x (cells other) = map ent_x (cells player)
      \<and> map ent_y (cells other) = map ent_y (cells player)"
  then have len: "length (cells other) = length (cells player)"
    by (metis length_map)
  then have d: "dead other = dead player" by (auto simp: dead_def)
  show "player_x other = player_x player" using eq len d by (simp add: player_x_def)
  show "player_y other = player_y player" using eq len d by (simp add: player_y_def)
qed (simp_all add: player_x_def player_y_def dead_def add_cell_def Player_new_def Cell_new_def)

section \<open>Consumption between two players' cells\<close>

text \<open>
  Modelled from the spec: the consumption step of \<^verbatim>\<open>Engine::advance\<close>
  (\<^verbatim>\<open>engine/Engine.hpp\<close>), missing from the sources. One consumption event: cell
  \<open>snd eater\<close> of player \<open>fst eater\<close> eats cell \<open>snd eaten\<close> of player \<open>fst eaten\<close>. A
  player's own cells never eat each other, and the eater has to be \<open>eligible\<close>: the
  spec leaves the mass ratio and the overlap open, so the test is a parameter. On
  consumption the eater's mass increases by the mass of the eaten cell, and the eaten
  cell is destroyed: it leaves its owner's cell collection. \<open>None\<close>: no event.
\<close>

definition consume ::
  "(('d, 'm::plus) Cell \<Rightarrow> ('d, 'm) Cell \<Rightarrow> bool) \<Rightarrow> pid \<times> nat \<Rightarrow> pid \<times> nat
     \<Rightarrow> ('d, 'm) GameState \<Rightarrow> ('d, 'm) GameState option" where
  "consume eligible eater eaten game_state =
     (case (map_of (players game_state) (fst eater), map_of (players game_state) (fst eaten)) of
        (Some player_a, Some player_b) \<Rightarrow>
          if fst eater \<noteq> fst eaten
             \<and> snd eater < length (cells player_a) \<and> snd eaten < length (cells player_b)
             \<and> eligible (cells player_a ! snd eater) (cells player_b ! snd eaten)
          then
            let a = cells player_a ! snd eater;
                b = cells player_b ! snd eaten;
                player_a' = player_a\<lparr>cells := (cells player_a)[snd eater := a\<lparr>mass := mass a + mass b\<rparr>]\<rparr>;
                player_b' = player_b\<lparr>cells := take (snd eaten) (cells player_b)
                                               @ drop (Suc (snd eaten)) (cells player_b)\<rparr>
            in Some (game_state\<lparr>players :=
                 AList.update (fst eaten) player_b'
                   (AList.update (fst eater) player_a' (players game_state))\<rparr>)
          else None
      | _ \<Rightarrow> None)"

text \<open>Modelled from the spec: the mass of a player, the sum of its cells' masses.\<close>

definition total_mass :: "('d, 'm::comm_monoid_add) Player \<Rightarrow> 'm" where
  "total_mass player = sum_list (map mass (cells player))"

lemma sum_list_split:
  fixes xs :: "'m::comm_monoid_add list"
  assumes "i < length xs"
  shows "sum_list xs = sum_list (take i xs) + (xs ! i + sum_list (drop (Suc i) xs))"
proof -
  have "xs = take i xs @ xs ! i # drop (Suc i) xs"
    using assms by (simp add: id_take_nth_drop)
  then show ?thesis by (metis sum_list.Cons sum_list.append)
qed

lemma sum_list_update:
  fixes xs :: "'m::comm_monoid_add list"
  assumes "i < length xs"
  shows "sum_list (xs[i := v]) = sum_list (take i xs) + (v + sum_list (drop (Suc i) xs))"
  using assms by (simp add: upd_conv_take_nth_drop)

text \<open>
  C7. In every consumption event in which cell \<open>ia\<close> of player \<open>pa\<close> eats cell \<open>ib\<close> of
  another player \<open>pb\<close>, the eater's mass afterwards is its mass before plus the mass of
  the eaten cell before, and the eaten cell is absent afterwards: \<open>pb\<close> owns the cells
  it owned before without the one at position \<open>ib\<close>, one cell fewer. The mass of the
  two players together is conserved, and nothing else in the world state changes.
\<close>

theorem consume_mass:
  fixes game_state :: "('d, 'm::comm_monoid_add) GameState"
  assumes ev: "consume eligible (pa, ia) (pb, ib) game_state = Some game_state'"
    and a: "map_of (players game_state) pa = Some player_a"
    and b: "map_of (players game_state) pb = Some player_b"
  shows "\<exists>player_a' player_b'.
      map_of (players game_state') pa = Some player_a'
    \<and> map_of (players game_state') pb = Some player_b'
    \<and> mass (cells player_a' ! ia) = mass (cells player_a ! ia) + mass (cells player_b ! ib)
    \<and> length (cells player_a') = length (cells player_a)
    \<and> cells player_b' = take ib (cells player_b) @ drop (Suc ib) (cells player_b)
    \<and> length (cells player_b') + 1 = length (cells player_b)
    \<and> total_mass player_a' + total_mass player_b' = total_mass player_a + total_mass player_b
    \<and> (\<forall>p. p \<noteq> pa \<and> p \<noteq> pb \<longrightarrow> map_of (players game_state') p = map_of (players game_state) p)
    \<and> map fst (players game_state') = map fst (players game_state)
    \<and> pellets game_state' = pellets game_state \<and> viruses game_state' = viruses game_state
    \<and> foods game_state' = foods game_state"
proof -
  let ?a = "cells player_a ! ia" and ?b = "cells player_b ! ib"
  let ?A = "player_a\<lparr>cells := (cells player_a)[ia := ?a\<lparr>mass := mass ?a + mass ?b\<rparr>]\<rparr>"
  let ?B = "player_b\<lparr>cells := take ib (cells player_b) @ drop (Suc ib) (cells player_b)\<rparr>"
  from ev a b have cond: "pa \<noteq> pb" "ia < length (cells player_a)" "ib < length (cells player_b)"
    and gs': "game_state' = game_state\<lparr>players :=
                 AList.update pb ?B (AList.update pa ?A (players game_state))\<rparr>"
    by (auto simp: consume_def Let_def split: if_splits)
  have ma: "map_of (players game_state') pa = Some ?A"
    using cond(1) by (simp add: gs' update_conv')
  have mb: "map_of (players game_state') pb = Some ?B"
    by (simp add: gs' update_conv')
  have keys: "map fst (players game_state') = map fst (players game_state)"
    using a b by (simp add: gs' AList.update_keys map_of_eq_None_iff[symmetric] dom_def
        insert_absorb domI)
  have "total_mass ?A = sum_list (take ia (map mass (cells player_a)))
      + ((mass ?a + mass ?b) + sum_list (drop (Suc ia) (map mass (cells player_a))))"
    using sum_list_update[of ia "map mass (cells player_a)" "mass ?a + mass ?b"] cond(2)
    by (simp add: total_mass_def map_update)
  moreover have "total_mass player_a = sum_list (take ia (map mass (cells player_a)))
      + (mass ?a + sum_list (drop (Suc ia) (map mass (cells player_a))))"
    using sum_list_split[of ia "map mass (cells player_a)"] cond(2)
    by (simp add: total_mass_def)
  moreover have "total_mass player_b = sum_list (take ib (map mass (cells player_b)))
      + (mass ?b + sum_list (drop (Suc ib) (map mass (cells player_b))))"
    using sum_list_split[of ib "map mass (cells player_b)"] cond(3)
    by (simp add: total_mass_def)
  moreover have "total_mass ?B = sum_list (take ib (map mass (cells player_b)))
      + sum_list (drop (Suc ib) (map mass (cells player_b)))"
    by (simp add: total_mass_def take_map drop_map)
  ultimately have tm: "total_mass ?A + total_mass ?B = total_mass player_a + total_mass player_b"
    by (simp only: ac_simps)
  show ?thesis
    using ma mb cond keys tm by (intro exI[of _ ?A] exI[of _ ?B]) (simp add: gs' update_conv')
qed

section \<open>The properties at the tests' inputs\<close>

text \<open>The player of the test \<^verbatim>\<open>Player.Location\<close>: cells at (100,100) and (102,102).\<close>

definition test_player :: "(real, nat) Player" where
  "test_player = add_cell 102 102 25 (add_cell 100 100 25 (Player_new 0 ''TestPlayer''))"

text \<open>The test's player is at (101,101), and so is a player with other masses.\<close>

theorem player_centroid_witness:
  "cells test_player \<noteq> []
   \<and> player_x test_player = Some 101 \<and> player_y test_player = Some 101
   \<and> map ent_x (cells (add_cell 102 102 7 (add_cell 100 100 1 (Player_new 3 ''Other'')) :: (real, nat) Player))
       = map ent_x (cells test_player)
   \<and> map ent_y (cells (add_cell 102 102 7 (add_cell 100 100 1 (Player_new 3 ''Other'')) :: (real, nat) Player))
       = map ent_y (cells test_player)
   \<and> player_x (add_cell 102 102 7 (add_cell 100 100 1 (Player_new 3 ''Other'')) :: (real, nat) Player)
       = player_x test_player
   \<and> player_y (add_cell 102 102 7 (add_cell 100 100 1 (Player_new 3 ''Other'')) :: (real, nat) Player)
       = player_y test_player
   \<and> player_x (add_cell 2 2 9 (add_cell 0 0 4 (Player_new 0 ''TestPlayer'')) :: (real, nat) Player)
       = Some 1
   \<and> player_y (add_cell 2 2 9 (add_cell 0 0 4 (Player_new 0 ''TestPlayer'')) :: (real, nat) Player)
       = Some 1"
proof -
  let ?other = "add_cell 102 102 7 (add_cell 100 100 1 (Player_new 3 ''Other'')) :: (real, nat) Player"
  have ne: "cells test_player \<noteq> []"
    by (simp add: test_player_def add_cell_def)
  have xs: "map ent_x (cells ?other) = map ent_x (cells test_player)"
    and ys: "map ent_y (cells ?other) = map ent_y (cells test_player)"
    by (simp_all add: test_player_def add_cell_def Player_new_def Cell_new_def)
  have sx: "sum_list (map ent_x (cells test_player)) / of_nat (length (cells test_player)) = 101"
    and sy: "sum_list (map ent_y (cells test_player)) / of_nat (length (cells test_player)) = 101"
    by (simp_all add: test_player_def add_cell_def Player_new_def Cell_new_def)
  note t = player_centroid[of test_player 9 4 0 "''TestPlayer''"]
  from t ne have "player_x test_player = Some 101" "player_y test_player = Some 101"
    unfolding sx sy by blast+
  moreover from t xs ys have "player_x ?other = player_x test_player"
    "player_y ?other = player_y test_player"
    by blast+
  ultimately show ?thesis using t ne xs ys by blast
qed

text \<open>
  In the example world the controlled player's cell of mass 25 eats the bot's first
  cell of mass 12, under a ratio of 1.25.
\<close>

definition example_eligible :: "(real, nat) Cell \<Rightarrow> (real, nat) Cell \<Rightarrow> bool" where
  "example_eligible a b = (5 * mass b \<le> 4 * mass a)"

definition example_after :: "(real, nat) GameState" where
  "example_after =
     \<lparr>players =
        [(7, \<lparr>player_pid = 7, player_name = ''agent'',
              cells = [\<lparr>ent_x = 10, ent_y = 20, velocity = \<lparr>dx = 1, dy = -1\<rparr>, mass = 37\<rparr>]\<rparr>),
         (9, \<lparr>player_pid = 9, player_name = ''bot'',
              cells = [\<lparr>ent_x = 31, ent_y = 41, velocity = \<lparr>dx = 2, dy = 3\<rparr>, mass = 13\<rparr>]\<rparr>)],
      pellets = [\<lparr>ent_x = 1, ent_y = 2\<rparr>, \<lparr>ent_x = 5, ent_y = 6\<rparr>],
      viruses = [\<lparr>ent_x = 3, ent_y = 4\<rparr>],
      foods = []\<rparr>"

theorem consume_mass_witness:
  "consume example_eligible (7, 0) (9, 0) example_state = Some example_after
   \<and> map_of (players example_state) 7 = Some example_player
   \<and> map_of (players example_state) 9 = Some example_bot
   \<and> (\<exists>player_a' player_b'.
        map_of (players example_after) 7 = Some player_a'
      \<and> map_of (players example_after) 9 = Some player_b'
      \<and> mass (cells player_a' ! 0) = mass (cells example_player ! 0) + mass (cells example_bot ! 0)
      \<and> cells player_b' = take 0 (cells example_bot) @ drop (Suc 0) (cells example_bot)
      \<and> length (cells player_b') + 1 = length (cells example_bot)
      \<and> total_mass player_a' + total_mass player_b'
          = total_mass example_player + total_mass example_bot)"
proof -
  have ev: "consume example_eligible (7, 0) (9, 0) example_state = Some example_after"
    by (simp add: consume_def example_eligible_def example_state_def example_player_def
        example_bot_def example_after_def Let_def)
  have a: "map_of (players example_state) 7 = Some example_player"
    and b: "map_of (players example_state) 9 = Some example_bot"
    by (simp_all add: example_state_def)
  from consume_mass[OF ev a b] obtain player_a' player_b' where
    "map_of (players example_after) 7 = Some player_a'"
    "map_of (players example_after) 9 = Some player_b'"
    "mass (cells player_a' ! 0) = mass (cells example_player ! 0) + mass (cells example_bot ! 0)"
    "cells player_b' = take 0 (cells example_bot) @ drop (Suc 0) (cells example_bot)"
    "length (cells player_b') + 1 = length (cells example_bot)"
    "total_mass player_a' + total_mass player_b' = total_mass example_player + total_mass example_bot"
    by blast
  then show ?thesis using ev a b by blast
qed

end
